theory Spec2Isabelle
  imports Main "HOL-Library.Sublist"
begin

section \<open>Data model\<close>

text \<open>
  The values a configuration field or a field of a parsed response body can hold.
  The interface \<^verbatim>\<open>WebhookConfig\<close> types every field as a string, and a field of
  \<^verbatim>\<open>config.json\<close> may also be absent (\<^verbatim>\<open>undefined\<close>) or \<^verbatim>\<open>null\<close>.
  Strings are lists of code units.
\<close>

datatype jsval = JUndefined | JNull | JStr string

text \<open>JavaScript truthiness, as used by \<^verbatim>\<open>if (x)\<close> and \<^verbatim>\<open>!x\<close>.\<close>

fun truthy :: "jsval \<Rightarrow> bool" where
  "truthy JUndefined = False"
| "truthy JNull = False"
| "truthy (JStr s) = (s \<noteq> [])"

text \<open>The string a template literal \<^verbatim>\<open>`${x}`\<close> inserts for a value.\<close>

fun to_string :: "jsval \<Rightarrow> string" where
  "to_string JUndefined = ''undefined''"
| "to_string JNull = ''null''"
| "to_string (JStr s) = s"

text \<open>\<^verbatim>\<open>interface WebhookConfig\<close> of \<^verbatim>\<open>platform.ts\<close>.\<close>

record webhook =
  cfg_name :: jsval
  cfg_token :: jsval
  cfg_text :: jsval
  cfg_id :: jsval
  cfg_title :: jsval
  cfg_groupType :: jsval
  cfg_iconURL :: jsval

text \<open>
  The four checks of \<^verbatim>\<open>discoverDevices\<close> an entry has to pass
  (\<^verbatim>\<open>!webhook.name\<close>, \<^verbatim>\<open>!webhook.token\<close>, \<^verbatim>\<open>!webhook.text\<close>, \<^verbatim>\<open>!webhook.id\<close>).
\<close>

definition valid_webhook :: "webhook \<Rightarrow> bool" where
  "valid_webhook w =
     (truthy (cfg_name w) \<and> truthy (cfg_token w) \<and> truthy (cfg_text w) \<and> truthy (cfg_id w))"

text \<open>
  The arguments of the call \<^verbatim>\<open>axios.post(endpoint, payload, {headers, params, timeout,
  maxRedirects, validateStatus})\<close>. The body is the object \<^verbatim>\<open>payload\<close> in insertion
  order; \<^verbatim>\<open>params\<close> is what the HTTP client appends to the URL as the query string.
  \<^verbatim>\<open>validateStatus\<close> is the function \<^verbatim>\<open>status < 500\<close>, kept as its bound.
\<close>

record request =
  req_url :: string
  req_data :: "(string \<times> jsval) list"
  req_headers :: "(string \<times> string) list"
  req_params :: "(string \<times> string) list"
  req_timeout :: nat
  req_maxRedirects :: nat
  req_validateStatus_below :: nat

text \<open>
  \<^verbatim>\<open>response.data\<close>: the HTTP client hands over the parsed object when the body is
  JSON and the body text itself otherwise (the empty string for an empty body).
\<close>

datatype resp_data = RawText string | JsonObject "(string \<times> jsval) list"

fun data_truthy :: "resp_data \<Rightarrow> bool" where
  "data_truthy (RawText s) = (s \<noteq> [])"
| "data_truthy (JsonObject kvs) = True"

text \<open>Property access \<^verbatim>\<open>response.data.error\<close>: a string has no such property.\<close>

fun data_field :: "resp_data \<Rightarrow> string \<Rightarrow> jsval" where
  "data_field (RawText s) k = JUndefined"
| "data_field (JsonObject kvs) k = (case map_of kvs k of None \<Rightarrow> JUndefined | Some v \<Rightarrow> v)"

text \<open>
  What the awaited HTTP call comes back with: no response at all (network failure,
  timeout), or a response with status, status text and data.
\<close>

datatype http_result = NoResponse | Response nat string resp_data

text \<open>
  The ways \<^verbatim>\<open>sendNotification\<close> fails: the \<^verbatim>\<open>Error\<close> it throws itself for a
  status other than 200, the error the HTTP client throws (no response, or a status that
  \<^verbatim>\<open>validateStatus\<close> refuses), and the \<^verbatim>\<open>TypeError\<close> of calling
  \<^verbatim>\<open>substring\<close> on a token that is not a string.
\<close>

datatype client_failure = NoResponseReceived | StatusRefused nat

datatype error = Rejected string | TransportError client_failure | TypeError

datatype level = Debug | Info | Warn | Error

datatype logarg = Txt string | Json "(string \<times> jsval) list" | Data resp_data | Thrown error

record accessory =
  displayName :: string
  UUID :: string
  context_webhook :: "webhook option"

datatype effect =
    Log level "logarg list"
  | HttpPost request
  | SetTimeout nat
  | UpdateCharacteristic nat
  | NewHandler accessory
  | RegisterPlatformAccessories string string "accessory list"

section \<open>The dispatcher: \<^verbatim>\<open>sendNotification\<close>\<close>

definition digit_char :: "nat \<Rightarrow> char" where
  "digit_char n = ''0123456789'' ! n"

text \<open>The decimal text of a status code, as the template literal prints a number.\<close>

function string_of_nat :: "nat \<Rightarrow> string" where
  "string_of_nat n =
     (if n < 10 then [digit_char n] else string_of_nat (n div 10) @ [digit_char (n mod 10)])"
  by pat_completeness auto
termination
  by (relation "measure (\<lambda>n. n)") auto

declare string_of_nat.simps [simp del]

definition build_endpoint :: "webhook \<Rightarrow> string" where
  "build_endpoint w = ''https://notifypush.pingie.com/notify-json/'' @ to_string (cfg_id w)"

definition build_payload :: "webhook \<Rightarrow> (string \<times> jsval) list" where
  "build_payload w =
     [(''text'', cfg_text w)]
     @ (if truthy (cfg_title w) then [(''title'', cfg_title w)] else [])
     @ (if truthy (cfg_groupType w) then [(''groupType'', cfg_groupType w)] else [])
     @ (if truthy (cfg_iconURL w) then [(''iconUrl'', cfg_iconURL w)] else [])"

text \<open>\<^verbatim>\<open>token.substring(0, Math.min(5, token.length)) + '...'\<close>\<close>

definition token_preview :: "string \<Rightarrow> string" where
  "token_preview tok = take (min 5 (length tok)) tok @ ''...''"

definition build_request :: "webhook \<Rightarrow> string \<Rightarrow> request" where
  "build_request w tok =
     \<lparr> req_url = build_endpoint w,
       req_data = build_payload w,
       req_headers = [(''Content-Type'', ''application/json'')],
       req_params = [(''token'', tok)],
       req_timeout = 10000,
       req_maxRedirects = 0,
       req_validateStatus_below = 500 \<rparr>"

definition error_message :: "nat \<Rightarrow> string \<Rightarrow> resp_data \<Rightarrow> string" where
  "error_message status statusText d =
     ''API returned status '' @ string_of_nat status @ '': '' @ statusText
     @ (if data_truthy d
        then (if truthy (data_field d ''error'')
              then '' - '' @ to_string (data_field d ''error'') else [])
           @ (if truthy (data_field d ''message'')
              then '' - '' @ to_string (data_field d ''message'') else [])
        else [])"

text \<open>
  \<^verbatim>\<open>sendNotification\<close> up to its suspension point: the three debug lines and the
  call of \<^verbatim>\<open>axios.post\<close>.
\<close>

definition request_effects :: "webhook \<Rightarrow> string \<Rightarrow> effect list" where
  "request_effects w tok =
     [Log Debug [Txt ''Sending notification to:'', Txt (build_endpoint w)],
      Log Debug [Txt ''With token:'', Txt (token_preview tok)],
      Log Debug [Txt ''Payload:'', Json (build_payload w)],
      HttpPost (build_request w tok)]"

text \<open>
  \<^verbatim>\<open>sendNotification\<close> from the point where the awaited call settles: the HTTP client
  throws when there is no response or when \<^verbatim>\<open>validateStatus\<close> refuses the status;
  otherwise the status is compared with 200.
\<close>

definition settle :: "http_result \<Rightarrow> effect list \<times> (error + resp_data)" where
  "settle res =
     (case res of
        NoResponse \<Rightarrow> ([], Inl (TransportError NoResponseReceived))
      | Response status statusText d \<Rightarrow>
          if 500 \<le> status then ([], Inl (TransportError (StatusRefused status)))
          else if status \<noteq> 200 then ([], Inl (Rejected (error_message status statusText d)))
          else ([Log Info [Txt ''Notification sent successfully. Response:'', Data d]], Inr d))"

text \<open>
  \<^verbatim>\<open>sendNotification\<close>, given what the awaited call comes back with. The result is the
  effects before the suspension point, the effects after it, and the value returned
  (\<open>Inr\<close>) or the error thrown (\<open>Inl\<close>). A token that is not a string makes
  \<^verbatim>\<open>token.substring\<close> throw before any request is made.
\<close>

definition sendNotification ::
  "webhook \<Rightarrow> http_result \<Rightarrow> effect list \<times> effect list \<times> (error + resp_data)" where
  "sendNotification w res =
     (case cfg_token w of
        JStr tok \<Rightarrow> (request_effects w tok, settle res)
      | _ \<Rightarrow>
          ([Log Debug [Txt ''Sending notification to:'', Txt (build_endpoint w)]], [],
           Inl TypeError))"

text \<open>The requests a list of effects issues, and the arguments of its debug log lines.\<close>

fun requests_of :: "effect list \<Rightarrow> request list" where
  "requests_of [] = []"
| "requests_of (HttpPost r # es) = r # requests_of es"
| "requests_of (e # es) = requests_of es"



section \<open>The dispatcher: the contact sensor\<close>

definition CONTACT_DETECTED :: nat where
  "CONTACT_DETECTED = 0"

definition CONTACT_NOT_DETECTED :: nat where
  "CONTACT_NOT_DETECTED = 1"

text \<open>
  An instance of \<^verbatim>\<open>NotifyWebhookAccessory\<close>: its configuration and the value its
  \<^verbatim>\<open>ContactSensorState\<close> characteristic currently holds.
\<close>

record sensor =
  webhookConfig :: webhook
  service_state :: nat

definition getContactState :: "sensor \<Rightarrow> nat" where
  "getContactState s = CONTACT_DETECTED"

text \<open>Effects stamped with the time (in ms) at which they happen.\<close>

definition at_time :: "nat \<Rightarrow> effect list \<Rightarrow> (nat \<times> effect) list" where
  "at_time t es = map (Pair t) es"

text \<open>
  The time at which \<^verbatim>\<open>await this.sendNotification()\<close> resumes: \<open>d\<close> ms after the
  request was made, or at once when the call threw before making one.
\<close>

definition resume_time :: "nat \<Rightarrow> nat \<Rightarrow> effect list \<Rightarrow> nat" where
  "resume_time t d pre = (if requests_of pre = [] then t else t + d)"

definition outcome_log :: "webhook \<Rightarrow> error + resp_data \<Rightarrow> effect" where
  "outcome_log w outcome =
     (case outcome of
        Inr d \<Rightarrow>
          Log Info [Txt (''Successfully sent notification for: '' @ to_string (cfg_name w))]
      | Inl e \<Rightarrow>
          Log Error [Txt (''Failed to send notification for '' @ to_string (cfg_name w) @ '':''),
                     Thrown e])"

text \<open>
  \<^verbatim>\<open>setContactState(value)\<close> called at time \<open>t\<close>, where the HTTP call, if made, takes
  \<open>d\<close> ms to settle with \<open>res\<close>. The handler logs, runs \<^verbatim>\<open>sendNotification\<close> up to
  the request, is suspended until the call settles, logs the outcome (the error is caught),
  and only then calls \<^verbatim>\<open>setTimeout(..., 1000)\<close>; the callback closes the sensor.
\<close>

definition setContactState ::
  "webhook \<Rightarrow> nat \<Rightarrow> nat \<Rightarrow> nat \<Rightarrow> http_result \<Rightarrow> (nat \<times> effect) list" where
  "setContactState w v t d res =
     (if v = CONTACT_NOT_DETECTED
      then (case sendNotification w res of
              (pre, post, outcome) \<Rightarrow>
                at_time t
                  (Log Info [Txt (''Contact sensor opened, triggering webhook: ''
                                  @ to_string (cfg_name w))] # pre)
                @ at_time (resume_time t d pre) (post @ [outcome_log w outcome])
                @ at_time (resume_time t d pre) [SetTimeout 1000]
                @ at_time (resume_time t d pre + 1000)
                    [UpdateCharacteristic CONTACT_DETECTED,
                     Log Debug [Txt (''Auto-closed contact sensor: '' @ to_string (cfg_name w))]])
      else [])"

fun dispatch_times :: "(nat \<times> effect) list \<Rightarrow> nat list" where
  "dispatch_times [] = []"
| "dispatch_times ((t, HttpPost r) # tr) = t # dispatch_times tr"
| "dispatch_times (x # tr) = dispatch_times tr"

fun timers_of :: "(nat \<times> effect) list \<Rightarrow> (nat \<times> nat) list" where
  "timers_of [] = []"
| "timers_of ((t, SetTimeout ms) # tr) = (t, ms) # timers_of tr"
| "timers_of (x # tr) = timers_of tr"

fun reset_times :: "(nat \<times> effect) list \<Rightarrow> nat list" where
  "reset_times [] = []"
| "reset_times ((t, UpdateCharacteristic v) # tr) =
     (if v = CONTACT_DETECTED then t # reset_times tr else reset_times tr)"
| "reset_times (x # tr) = reset_times tr"

text \<open>
  The accessory at time \<open>now\<close>, given the timed effects of its handlers:
  \<^verbatim>\<open>updateCharacteristic\<close> stores the value in the characteristic.
\<close>

fun sensor_at :: "sensor \<Rightarrow> (nat \<times> effect) list \<Rightarrow> nat \<Rightarrow> sensor" where
  "sensor_at s [] now = s"
| "sensor_at s ((t, UpdateCharacteristic v) # tr) now =
     sensor_at (if t \<le> now then s\<lparr>service_state := v\<rparr> else s) tr now"
| "sensor_at s (x # tr) now = sensor_at s tr now"

section \<open>The registry: \<^verbatim>\<open>discoverDevices\<close>\<close>

definition PLATFORM_NAME :: string where
  "PLATFORM_NAME = ''NotifyWebhooks''"

definition PLUGIN_NAME :: string where
  "PLUGIN_NAME = ''homebridge-notify-alerts''"

text \<open>An element of \<^verbatim>\<open>config.webhooks\<close>.\<close>

datatype entry = EUndefined | ENull | EObject webhook

text \<open>
  \<^verbatim>\<open>existingAccessory.context.webhook = webhook\<close>, where \<^verbatim>\<open>existingAccessory\<close> is the
  first element of \<^verbatim>\<open>this.accessories\<close> with the UUID: the array element is updated in
  place.
\<close>

fun set_context :: "string \<Rightarrow> webhook \<Rightarrow> accessory list \<Rightarrow> accessory list" where
  "set_context u w [] = []"
| "set_context u w (a # as) =
     (if UUID a = u then a\<lparr>context_webhook := Some w\<rparr> # as else a # set_context u w as)"

text \<open>The template literal \<^verbatim>\<open>`Webhook "${webhook.name}" is missing ...`\<close>.\<close>

definition missing_message :: "webhook \<Rightarrow> string \<Rightarrow> string" where
  "missing_message w field =
     ''Webhook '' @ [CHR 0x22] @ to_string (cfg_name w) @ [CHR 0x22] @ '' is missing '' @ field"

text \<open>
  The body of the loop of \<^verbatim>\<open>discoverDevices\<close> for one element, on the array
  \<^verbatim>\<open>this.accessories\<close>. \<open>gen\<close> is \<^verbatim>\<open>api.hap.uuid.generate\<close>, a function of the host.
\<close>

definition process_entry ::
  "(string \<Rightarrow> string) \<Rightarrow> entry \<Rightarrow> accessory list \<Rightarrow> accessory list \<times> effect list" where
  "process_entry gen e accs =
     (case e of
        EObject w \<Rightarrow>
          if \<not> truthy (cfg_name w) then
            (accs, [Log Error [Txt ''Webhook configuration is missing name''],
                    Log Error [Txt (''Please add a '' @ [CHR 0x22] @ ''name'' @ [CHR 0x22]
                                    @ '' field to your webhook configuration'')]])
          else if \<not> truthy (cfg_token w) then
            (accs, [Log Error [Txt (missing_message w ''token'')],
                    Log Error [Txt ''Get your token from the Notify app settings'']])
          else if \<not> truthy (cfg_text w) then
            (accs, [Log Error [Txt (missing_message w ''text'')],
                    Log Error [Txt (''Add a '' @ [CHR 0x22] @ ''text'' @ [CHR 0x22]
                                    @ '' field with your notification message'')]])
          else if \<not> truthy (cfg_id w) then
            (accs, [Log Error [Txt (missing_message w ''id'')],
                    Log Error [Txt (''Add an '' @ [CHR 0x22] @ ''id'' @ [CHR 0x22]
                        @ '' field with your Device ID or Group ID (groups start with GRP)'')],
                    Log Error [Txt (''Example device: '' @ [CHR 0x22] @ ''ABC12345'' @ [CHR 0x22]
                        @ '', Example group: '' @ [CHR 0x22] @ ''GRPFAMILY'' @ [CHR 0x22])]])
          else
            (case find (\<lambda>a. UUID a = gen (to_string (cfg_name w))) accs of
               Some existingAccessory \<Rightarrow>
                 (set_context (gen (to_string (cfg_name w))) w accs,
                  [Log Info [Txt ''Restoring existing accessory from cache:'',
                             Txt (displayName existingAccessory)],
                   NewHandler (existingAccessory\<lparr>context_webhook := Some w\<rparr>)])
             | None \<Rightarrow>
                 (accs,
                  [Log Info [Txt ''Adding new accessory:'', Txt (to_string (cfg_name w))],
                   NewHandler \<lparr> displayName = to_string (cfg_name w),
                                UUID = gen (to_string (cfg_name w)),
                                context_webhook = Some w \<rparr>,
                   RegisterPlatformAccessories PLUGIN_NAME PLATFORM_NAME
                     [\<lparr> displayName = to_string (cfg_name w),
                        UUID = gen (to_string (cfg_name w)),
                        context_webhook = Some w \<rparr>]]))
      | _ \<Rightarrow>
          (accs, [Log Warn [Txt ''Skipping null or undefined webhook entry in configuration'']]))"

fun discover_loop ::
  "(string \<Rightarrow> string) \<Rightarrow> entry list \<Rightarrow> accessory list \<Rightarrow> accessory list \<times> effect list" where
  "discover_loop gen [] accs = (accs, [])"
| "discover_loop gen (e # es) accs =
     (case process_entry gen e accs of
        (accs', eff) \<Rightarrow>
          (case discover_loop gen es accs' of (accs'', eff') \<Rightarrow> (accs'', eff @ eff')))"

text \<open>
  \<^verbatim>\<open>discoverDevices\<close>; \<open>None\<close> stands for a \<^verbatim>\<open>config.webhooks\<close> that is missing or
  not an array.
\<close>

definition discoverDevices ::
  "(string \<Rightarrow> string) \<Rightarrow> entry list option \<Rightarrow> accessory list
     \<Rightarrow> accessory list \<times> effect list" where
  "discoverDevices gen webhooks accs =
     (case webhooks of
        None \<Rightarrow>
          (accs, [Log Warn [Txt ''No webhooks configured. Please add webhooks to your config.'']])
      | Some ws \<Rightarrow> discover_loop gen ws accs)"

text \<open>The accessories a list of effects registers with the host, and the handlers it creates.\<close>

fun registrations_of :: "effect list \<Rightarrow> accessory list" where
  "registrations_of [] = []"
| "registrations_of (RegisterPlatformAccessories pl pf as # es) = as @ registrations_of es"
| "registrations_of (e # es) = registrations_of es"

fun handlers_of :: "effect list \<Rightarrow> accessory list" where
  "handlers_of [] = []"
| "handlers_of (NewHandler a # es) = a # handlers_of es"
| "handlers_of (e # es) = handlers_of es"

section \<open>Example inputs\<close>

definition example_webhook :: webhook where
  "example_webhook =
     \<lparr> cfg_name = JStr ''Front Door Alert'', cfg_token = JStr ''T'', cfg_text = JStr ''Hi'',
       cfg_id = JStr ''ABC12345'', cfg_title = JUndefined, cfg_groupType = JUndefined,
       cfg_iconURL = JUndefined \<rparr>"

text \<open>A second definition, for a group target.\<close>

definition second_webhook :: webhook where
  "second_webhook =
     \<lparr> cfg_name = JStr ''Family Alert'', cfg_token = JStr ''XYZ789TOKEN123'',
       cfg_text = JStr ''Dinner is ready!'', cfg_id = JStr ''GRPFAMILY'',
       cfg_title = JUndefined, cfg_groupType = JStr ''all'', cfg_iconURL = JUndefined \<rparr>"

text \<open>A stand-in for the identifier generator of the host, for the examples.\<close>

definition example_generate :: "string \<Rightarrow> string" where
  "example_generate n = ''uuid:'' @ n"

text \<open>An accessory restored from the cache, with the identifier of the example's name.\<close>

definition cached_accessory :: accessory where
  "cached_accessory =
     \<lparr> displayName = ''Front Door'', UUID = example_generate ''Front Door Alert'',
       context_webhook = None \<rparr>"

section \<open>Properties of \<^verbatim>\<open>sendNotification\<close>\<close>

lemma requests_of_request_effects: "requests_of (request_effects w tok) = [build_request w tok]"
  by (simp add: request_effects_def)

lemma requests_of_settle: "requests_of (fst (settle res)) = []"
  by (cases res) (simp_all add: settle_def)

lemma valid_token: "valid_webhook w \<Longrightarrow> \<exists>tok. cfg_token w = JStr tok \<and> tok \<noteq> []"
  by (cases "cfg_token w") (auto simp: valid_webhook_def)

lemma sendNotification_valid:
  "cfg_token w = JStr tok \<Longrightarrow> sendNotification w res = (request_effects w tok, settle res)"
  by (simp add: sendNotification_def)

lemma valid_example_webhook: "valid_webhook example_webhook"
  by (simp add: valid_webhook_def example_webhook_def)

text \<open>
  Claim C1. For a valid definition, \<^verbatim>\<open>sendNotification\<close> issues exactly one POST, before
  its suspension point and none after it. The URL is the fixed prefix followed by the
  target id. The body holds \<^verbatim>\<open>text\<close> always and \<^verbatim>\<open>title\<close>, \<^verbatim>\<open>groupType\<close>,
  \<^verbatim>\<open>iconUrl\<close> exactly when the field is configured (truthy), so no value of the body is
  undefined, null or empty. The token is the only query parameter; the only header is the
  content type, and neither the body nor the headers have a \<^verbatim>\<open>token\<close> key.
\<close>

theorem dispatch_request:
  assumes "valid_webhook w"
  shows "\<exists>tok r. cfg_token w = JStr tok
           \<and> requests_of (fst (sendNotification w res)) = [r]
           \<and> requests_of (fst (snd (sendNotification w res))) = []
           \<and> req_url r = ''https://notifypush.pingie.com/notify-json/'' @ to_string (cfg_id w)
           \<and> req_data r =
                (''text'', cfg_text w)
                # (if truthy (cfg_title w) then [(''title'', cfg_title w)] else [])
                @ (if truthy (cfg_groupType w) then [(''groupType'', cfg_groupType w)] else [])
                @ (if truthy (cfg_iconURL w) then [(''iconUrl'', cfg_iconURL w)] else [])
           \<and> list_all (\<lambda>kv. truthy (snd kv)) (req_data r)
           \<and> req_params r = [(''token'', tok)]
           \<and> req_headers r = [(''Content-Type'', ''application/json'')]
           \<and> map_of (req_data r) ''token'' = None
           \<and> map_of (req_headers r) ''token'' = None"
proof -
  from assms obtain tok where tok: "cfg_token w = JStr tok"
    using valid_token by blast
  let ?r = "build_request w tok"
  have sent: "requests_of (fst (sendNotification w res)) = [?r]"
    by (simp add: sendNotification_valid [OF tok] requests_of_request_effects)
  have later: "requests_of (fst (snd (sendNotification w res))) = []"
    by (simp add: sendNotification_valid [OF tok] requests_of_settle)
  have url: "req_url ?r = ''https://notifypush.pingie.com/notify-json/'' @ to_string (cfg_id w)"
    by (simp add: build_request_def build_endpoint_def)
  have body: "req_data ?r =
                (''text'', cfg_text w)
                # (if truthy (cfg_title w) then [(''title'', cfg_title w)] else [])
                @ (if truthy (cfg_groupType w) then [(''groupType'', cfg_groupType w)] else [])
                @ (if truthy (cfg_iconURL w) then [(''iconUrl'', cfg_iconURL w)] else [])"
    by (simp add: build_request_def build_payload_def)
  have filled: "list_all (\<lambda>kv. truthy (snd kv)) (req_data ?r)"
    using assms by (simp add: build_request_def build_payload_def valid_webhook_def)
  have query: "req_params ?r = [(''token'', tok)]"
    and headers: "req_headers ?r = [(''Content-Type'', ''application/json'')]"
    by (simp_all add: build_request_def)
  have no_body_token: "map_of (req_data ?r) ''token'' = None"
    by (simp add: build_request_def build_payload_def)
  have no_header_token: "map_of (req_headers ?r) ''token'' = None"
    by (simp add: build_request_def)
  from tok sent later url body filled query headers no_body_token no_header_token
  show ?thesis by blast
qed

text \<open>
  The definition with text \<^verbatim>\<open>Hi\<close>, target \<^verbatim>\<open>ABC12345\<close>, token \<^verbatim>\<open>T\<close> and no optional
  field: one POST to \<^verbatim>\<open>/notify-json/ABC12345\<close> with the query parameter
  \<^verbatim>\<open>token=T\<close> and the body \<^verbatim>\<open>{"text":"Hi"}\<close>.
\<close>

theorem dispatch_request_witness:
  "valid_webhook example_webhook
   \<and> requests_of (fst (sendNotification example_webhook NoResponse)) =
       [\<lparr> req_url = ''https://notifypush.pingie.com/notify-json/ABC12345'',
          req_data = [(''text'', JStr ''Hi'')],
          req_headers = [(''Content-Type'', ''application/json'')],
          req_params = [(''token'', ''T'')],
          req_timeout = 10000, req_maxRedirects = 0, req_validateStatus_below = 500 \<rparr>]"
  using dispatch_request [OF valid_example_webhook, of NoResponse] valid_example_webhook
  by (simp add: example_webhook_def sendNotification_def request_effects_def build_request_def
      build_endpoint_def build_payload_def)

lemma outcome_valid:
  "valid_webhook w \<Longrightarrow> snd (snd (sendNotification w res)) = snd (settle res)"
  using valid_token [of w] by (auto simp: sendNotification_valid)

text \<open>
  Claim C3 as stated fails: a response with the success status 204 is not delivered but
  rejected, because the status is compared with 200.
\<close>

theorem delivered_2xx_counterexample:
  "snd (snd (sendNotification example_webhook (Response 204 ''No Content'' (RawText [])))) =
     Inl (Rejected ''API returned status 204: No Content'')"
  by (simp add: example_webhook_def sendNotification_def settle_def error_message_def
      string_of_nat.simps digit_char_def)

text \<open>
  Claim C3, amended. For a valid definition and every response, the dispatch is delivered
  (returns the response data) exactly when the status is 200. Every other status below 500
  is rejected with the composed reason, and a status of 500 or more is refused by the HTTP
  client, whose error is thrown instead.
\<close>

theorem delivered_iff_status_200:
  assumes "valid_webhook w"
  shows "snd (snd (sendNotification w (Response status statusText d))) =
           (if status = 200 then Inr d
            else if status < 500 then Inl (Rejected (error_message status statusText d))
            else Inl (TransportError (StatusRefused status)))"
  by (simp add: outcome_valid [OF assms] settle_def)

text \<open>Status 200 is delivered, status 503 is the HTTP client's error.\<close>

theorem delivered_iff_status_200_witness:
  "valid_webhook example_webhook
   \<and> snd (snd (sendNotification example_webhook (Response 200 ''OK'' (JsonObject [])))) =
       Inr (JsonObject [])
   \<and> snd (snd (sendNotification example_webhook
              (Response 503 ''Service Unavailable'' (RawText [])))) =
       Inl (TransportError (StatusRefused 503))"
  using delivered_iff_status_200 [OF valid_example_webhook, of 200 "''OK''" "JsonObject []"]
    delivered_iff_status_200 [OF valid_example_webhook, of 503 "''Service Unavailable''"
      "RawText []"]
    valid_example_webhook
  by simp

text \<open>
  Claim C4 as stated fails: for a 404 response whose body is the text \<^verbatim>\<open>gone\<close> (not
  JSON) the reason is the status line alone, without the body text; and for a 503 response
  no reason is composed at all, the HTTP client throws its own error.
\<close>

theorem rejected_reason_counterexample:
  "snd (snd (sendNotification example_webhook (Response 404 ''Not Found'' (RawText ''gone'')))) =
     Inl (Rejected ''API returned status 404: Not Found'')
   \<and> \<not> sublist ''gone'' ''API returned status 404: Not Found''
   \<and> snd (snd (sendNotification example_webhook
        (Response 503 ''Service Unavailable'' (JsonObject [(''error'', JStr ''down'')])))) =
     Inl (TransportError (StatusRefused 503))"
  by (simp add: example_webhook_def sendNotification_def settle_def error_message_def
      string_of_nat.simps digit_char_def sublist_Cons_right)

text \<open>
  Claim C4, amended. For a valid definition and a response whose status is below 500 and
  not 200, the dispatch is rejected and the reason is the line
  \<^verbatim>\<open>API returned status <status>: <statusText>\<close>, followed for a JSON object body by
  \<^verbatim>\<open> - <error>\<close> when its \<^verbatim>\<open>error\<close> field is truthy and then by \<^verbatim>\<open> - <message>\<close>
  when its \<^verbatim>\<open>message\<close> field is truthy; for an empty body the reason is that line alone.
\<close>

theorem rejected_reason:
  assumes "valid_webhook w" and "status < 500" and "status \<noteq> 200"
  shows "snd (snd (sendNotification w (Response status statusText (JsonObject kvs)))) =
           Inl (Rejected
             (''API returned status '' @ string_of_nat status @ '': '' @ statusText
              @ (if truthy (data_field (JsonObject kvs) ''error'')
                 then '' - '' @ to_string (data_field (JsonObject kvs) ''error'') else [])
              @ (if truthy (data_field (JsonObject kvs) ''message'')
                 then '' - '' @ to_string (data_field (JsonObject kvs) ''message'') else [])))
       \<and> snd (snd (sendNotification w (Response status statusText (RawText [])))) =
           Inl (Rejected (''API returned status '' @ string_of_nat status @ '': '' @ statusText))"
  using assms(2,3) by (simp add: outcome_valid [OF assms(1)] settle_def error_message_def)

text \<open>
  A 401 response with body \<^verbatim>\<open>{"error":"Invalid token"}\<close>: the reason contains
  \<^verbatim>\<open>401\<close> and \<^verbatim>\<open>Invalid token\<close>.
\<close>

theorem rejected_reason_witness:
  "valid_webhook example_webhook \<and> (401::nat) < 500 \<and> (401::nat) \<noteq> 200
   \<and> snd (snd (sendNotification example_webhook
        (Response 401 ''Unauthorized'' (JsonObject [(''error'', JStr ''Invalid token'')])))) =
       Inl (Rejected ''API returned status 401: Unauthorized - Invalid token'')
   \<and> sublist ''401'' ''API returned status 401: Unauthorized - Invalid token''
   \<and> sublist ''Invalid token'' ''API returned status 401: Unauthorized - Invalid token''"
  using rejected_reason [OF valid_example_webhook, of 401 "''Unauthorized''"
      "[(''error'', JStr ''Invalid token'')]"] valid_example_webhook
  by (simp add: string_of_nat.simps digit_char_def sublist_Cons_right)

section \<open>Properties of the contact sensor\<close>

lemma dispatch_times_append: "dispatch_times (xs @ ys) = dispatch_times xs @ dispatch_times ys"
  by (induction xs rule: dispatch_times.induct) simp_all

lemma timers_of_append: "timers_of (xs @ ys) = timers_of xs @ timers_of ys"
  by (induction xs rule: timers_of.induct) simp_all

lemma reset_times_append: "reset_times (xs @ ys) = reset_times xs @ reset_times ys"
  by (induction xs rule: reset_times.induct) simp_all

lemma settle_quiet:
  "dispatch_times (at_time t (fst (settle res) @ [outcome_log w (snd (settle res))])) = []"
  "timers_of (at_time t (fst (settle res) @ [outcome_log w (snd (settle res))])) = []"
  "reset_times (at_time t (fst (settle res) @ [outcome_log w (snd (settle res))])) = []"
  by (cases res; simp add: settle_def at_time_def outcome_log_def)+

lemma setContactState_valid:
  assumes "cfg_token w = JStr tok"
  shows "setContactState w CONTACT_NOT_DETECTED t d res =
           at_time t (Log Info [Txt (''Contact sensor opened, triggering webhook: ''
                                  @ to_string (cfg_name w))] # request_effects w tok)
           @ at_time (t + d) (fst (settle res) @ [outcome_log w (snd (settle res))])
           @ at_time (t + d) [SetTimeout 1000]
           @ at_time (t + d + 1000)
               [UpdateCharacteristic CONTACT_DETECTED,
                Log Debug [Txt (''Auto-closed contact sensor: '' @ to_string (cfg_name w))]]"
  by (cases "settle res")
     (simp add: setContactState_def sendNotification_valid [OF assms] resume_time_def
        requests_of_request_effects)

lemma activation_trace:
  assumes "valid_webhook w"
  shows "dispatch_times (setContactState w CONTACT_NOT_DETECTED t d res) = [t]"
    and "timers_of (setContactState w CONTACT_NOT_DETECTED t d res) = [(t + d, 1000)]"
    and "reset_times (setContactState w CONTACT_NOT_DETECTED t d res) = [t + d + 1000]"
proof -
  from assms obtain tok where tok: "cfg_token w = JStr tok"
    using valid_token by blast
  show "dispatch_times (setContactState w CONTACT_NOT_DETECTED t d res) = [t]"
    by (simp add: setContactState_valid [OF tok] dispatch_times_append settle_quiet)
       (simp add: at_time_def request_effects_def)
  show "timers_of (setContactState w CONTACT_NOT_DETECTED t d res) = [(t + d, 1000)]"
    by (simp add: setContactState_valid [OF tok] timers_of_append settle_quiet)
       (simp add: at_time_def request_effects_def)
  show "reset_times (setContactState w CONTACT_NOT_DETECTED t d res) = [t + d + 1000]"
    by (simp add: setContactState_valid [OF tok] reset_times_append settle_quiet)
       (simp add: at_time_def request_effects_def)
qed

text \<open>
  Claim C2 at the failing input: an activation at time 0 whose HTTP call takes 5000 ms to
  come back (the request timeout is 10000 ms). The request is made at 0, but the handler
  waits for the call, starts the timer only when it has settled, at 5000, and the sensor is
  closed at 6000: not 1000 ms after the activation.
\<close>

theorem reset_waits_for_dispatch:
  "dispatch_times (setContactState example_webhook CONTACT_NOT_DETECTED 0 5000
      (Response 200 ''OK'' (JsonObject []))) = [0]
   \<and> timers_of (setContactState example_webhook CONTACT_NOT_DETECTED 0 5000
      (Response 200 ''OK'' (JsonObject []))) = [(5000, 1000)]
   \<and> reset_times (setContactState example_webhook CONTACT_NOT_DETECTED 0 5000
      (Response 200 ''OK'' (JsonObject []))) = [6000]
   \<and> 1000 \<notin> set (reset_times (setContactState example_webhook CONTACT_NOT_DETECTED 0 5000
      (Response 200 ''OK'' (JsonObject []))))"
  by (simp add: activation_trace [OF valid_example_webhook])

text \<open>
  Claim C5. Whatever the state of the accessory, also when its characteristic holds the
  open value, \<^verbatim>\<open>getContactState\<close> answers \<^verbatim>\<open>CONTACT_DETECTED\<close> and never
  \<^verbatim>\<open>CONTACT_NOT_DETECTED\<close>. In particular it does so at every time \<open>now\<close> before,
  during and after an activation at \<open>t\<close> whose call takes \<open>d\<close> ms.
\<close>

theorem state_query_always_closed:
  "getContactState s = CONTACT_DETECTED
   \<and> getContactState s \<noteq> CONTACT_NOT_DETECTED
   \<and> getContactState (s\<lparr>service_state := CONTACT_NOT_DETECTED\<rparr>) = CONTACT_DETECTED
   \<and> getContactState
         (sensor_at (s\<lparr>service_state := CONTACT_NOT_DETECTED\<rparr>)
            (setContactState (webhookConfig s) CONTACT_NOT_DETECTED t d res) now) =
       CONTACT_DETECTED"
  by (simp add: getContactState_def CONTACT_DETECTED_def CONTACT_NOT_DETECTED_def)

section \<open>The token in the log\<close>










section \<open>Properties of \<^verbatim>\<open>discoverDevices\<close>\<close>

lemma discover_loop_append:
  "discover_loop gen (xs @ ys) accs =
     (fst (discover_loop gen ys (fst (discover_loop gen xs accs))),
      snd (discover_loop gen xs accs)
      @ snd (discover_loop gen ys (fst (discover_loop gen xs accs))))"
  by (induction xs arbitrary: accs) (simp_all split: prod.splits)

lemma discover_loop_Cons:
  "discover_loop gen (e # es) accs =
     (fst (discover_loop gen es (fst (process_entry gen e accs))),
      snd (process_entry gen e accs)
      @ snd (discover_loop gen es (fst (process_entry gen e accs))))"
  by (simp split: prod.splits)

lemma invalid_entry_skipped:
  assumes "\<not> valid_webhook w"
  shows "fst (process_entry gen (EObject w) accs) = accs"
    and "registrations_of (snd (process_entry gen (EObject w) accs)) = []"
    and "handlers_of (snd (process_entry gen (EObject w) accs)) = []"
  using assms by (auto simp: process_entry_def valid_webhook_def)


lemma skipped_entry_isolated:
  assumes "fst (process_entry gen e (fst (discover_loop gen pre accs))) = fst (discover_loop gen pre accs)"
  shows "discover_loop gen (pre @ e # post) accs =
           (fst (discover_loop gen (pre @ post) accs),
            snd (discover_loop gen pre accs)
            @ snd (process_entry gen e (fst (discover_loop gen pre accs)))
            @ snd (discover_loop gen post (fst (discover_loop gen pre accs))))"
  using assms
  by (simp add: discover_loop_append [of gen pre] discover_loop_Cons del: discover_loop.simps)



lemma set_context_keeps:
  "map (\<lambda>a. a\<lparr>context_webhook := None\<rparr>) (set_context u w accs) =
     map (\<lambda>a. a\<lparr>context_webhook := None\<rparr>) accs"
  by (induction accs) simp_all

lemma find_set_context:
  "find (\<lambda>a. UUID a = u) accs = Some a \<Longrightarrow>
     find (\<lambda>a. UUID a = u) (set_context u w accs) = Some (a\<lparr>context_webhook := Some w\<rparr>)"
  by (induction accs) (auto split: if_splits)

lemma valid_entry_new:
  assumes "valid_webhook w" and "find (\<lambda>a. UUID a = gen (to_string (cfg_name w))) accs = None"
  shows "process_entry gen (EObject w) accs =
           (accs,
            [Log Info [Txt ''Adding new accessory:'', Txt (to_string (cfg_name w))],
             NewHandler \<lparr> displayName = to_string (cfg_name w),
                          UUID = gen (to_string (cfg_name w)),
                          context_webhook = Some w \<rparr>,
             RegisterPlatformAccessories PLUGIN_NAME PLATFORM_NAME
               [\<lparr> displayName = to_string (cfg_name w),
                  UUID = gen (to_string (cfg_name w)),
                  context_webhook = Some w \<rparr>]])"
  using assms by (simp add: process_entry_def valid_webhook_def)

lemma valid_entry_existing:
  assumes "valid_webhook w" and "find (\<lambda>a. UUID a = gen (to_string (cfg_name w))) accs = Some a"
  shows "process_entry gen (EObject w) accs =
           (set_context (gen (to_string (cfg_name w))) w accs,
            [Log Info [Txt ''Restoring existing accessory from cache:'', Txt (displayName a)],
             NewHandler (a\<lparr>context_webhook := Some w\<rparr>)])"
  using assms by (simp add: process_entry_def valid_webhook_def)

lemma all_new_against_empty:
  assumes "list_all valid_webhook ws"
  shows "fst (discover_loop gen (map EObject ws) []) = []"
    and "registrations_of (snd (discover_loop gen (map EObject ws) [])) =
           map (\<lambda>w. \<lparr> displayName = to_string (cfg_name w),
                       UUID = gen (to_string (cfg_name w)), context_webhook = Some w \<rparr>) ws"
    and "handlers_of (snd (discover_loop gen (map EObject ws) [])) =
           map (\<lambda>w. \<lparr> displayName = to_string (cfg_name w),
                       UUID = gen (to_string (cfg_name w)), context_webhook = Some w \<rparr>) ws"
  using assms
  by (induction ws)
     (simp_all add: discover_loop_Cons valid_entry_new [where accs = "[]"]
        del: discover_loop.simps(2))

lemma process_entry_keeps:
  "map (\<lambda>a. a\<lparr>context_webhook := None\<rparr>) (fst (process_entry gen e accs)) =
     map (\<lambda>a. a\<lparr>context_webhook := None\<rparr>) accs"
  by (cases e) (simp_all add: process_entry_def set_context_keeps split: option.splits)

lemma discover_loop_keeps:
  "map (\<lambda>a. a\<lparr>context_webhook := None\<rparr>) (fst (discover_loop gen ds accs)) =
     map (\<lambda>a. a\<lparr>context_webhook := None\<rparr>) accs"
proof (induction ds arbitrary: accs)
  case Nil
  then show ?case by simp
next
  case (Cons e ds)
  show ?case
    by (simp add: discover_loop_Cons Cons.IH process_entry_keeps del: discover_loop.simps)
qed

lemma find_erased:
  "find (\<lambda>a. UUID a = u) (map (\<lambda>a. a\<lparr>context_webhook := None\<rparr>) xs) =
     map_option (\<lambda>a. a\<lparr>context_webhook := None\<rparr>) (find (\<lambda>a. UUID a = u) xs)"
  by (induction xs) simp_all

lemma find_after_loop:
  "map_option (\<lambda>a. a\<lparr>context_webhook := None\<rparr>)
     (find (\<lambda>a. UUID a = u) (fst (discover_loop gen ds accs))) =
   map_option (\<lambda>a. a\<lparr>context_webhook := None\<rparr>) (find (\<lambda>a. UUID a = u) accs)"
  using discover_loop_keeps [of gen ds accs] by (simp add: find_erased [symmetric])

lemma find_after_loop_None:
  "find (\<lambda>a. UUID a = u) accs = None \<Longrightarrow>
     find (\<lambda>a. UUID a = u) (fst (discover_loop gen ds accs)) = None"
  using find_after_loop [of u gen ds accs] by simp

lemma find_after_loop_Some:
  assumes "find (\<lambda>a. UUID a = u) accs = Some a"
  shows "\<exists>a'. find (\<lambda>a. UUID a = u) (fst (discover_loop gen ds accs)) = Some a'
           \<and> displayName a' = displayName a
           \<and> a'\<lparr>context_webhook := Some w\<rparr> = a\<lparr>context_webhook := Some w\<rparr>"
proof -
  from find_after_loop [of u gen ds accs] assms
  obtain a' where a': "find (\<lambda>a. UUID a = u) (fst (discover_loop gen ds accs)) = Some a'"
    and same: "a'\<lparr>context_webhook := None\<rparr> = a\<lparr>context_webhook := None\<rparr>"
    by auto
  from same have "displayName (a'\<lparr>context_webhook := None\<rparr>) =
      displayName (a\<lparr>context_webhook := None\<rparr>)"
    by simp
  then have name: "displayName a' = displayName a"
    by simp
  from same have "(a'\<lparr>context_webhook := None\<rparr>)\<lparr>context_webhook := Some w\<rparr> =
      (a\<lparr>context_webhook := None\<rparr>)\<lparr>context_webhook := Some w\<rparr>"
    by simp
  then have "a'\<lparr>context_webhook := Some w\<rparr> = a\<lparr>context_webhook := Some w\<rparr>"
    by simp
  with a' name show ?thesis by blast
qed

lemma batch_entry:
  "discover_loop gen (pre @ e # post) accs =
     (fst (discover_loop gen post (fst (process_entry gen e (fst (discover_loop gen pre accs))))),
      snd (discover_loop gen pre accs)
      @ snd (process_entry gen e (fst (discover_loop gen pre accs)))
      @ snd (discover_loop gen post (fst (process_entry gen e (fst (discover_loop gen pre accs))))))"
  by (simp add: discover_loop_append [of gen pre] discover_loop_Cons del: discover_loop.simps)

lemma batch_new:
  assumes "valid_webhook w" and "find (\<lambda>a. UUID a = gen (to_string (cfg_name w))) accs = None"
  shows "discoverDevices gen (Some (pre @ EObject w # post)) accs =
           (fst (discover_loop gen post (fst (discover_loop gen pre accs))),
            snd (discover_loop gen pre accs)
            @ [Log Info [Txt ''Adding new accessory:'', Txt (to_string (cfg_name w))],
               NewHandler \<lparr> displayName = to_string (cfg_name w),
                            UUID = gen (to_string (cfg_name w)), context_webhook = Some w \<rparr>,
               RegisterPlatformAccessories PLUGIN_NAME PLATFORM_NAME
                 [\<lparr> displayName = to_string (cfg_name w),
                    UUID = gen (to_string (cfg_name w)), context_webhook = Some w \<rparr>]]
            @ snd (discover_loop gen post (fst (discover_loop gen pre accs))))"
proof -
  have "find (\<lambda>a. UUID a = gen (to_string (cfg_name w))) (fst (discover_loop gen pre accs)) = None"
    using assms(2) by (rule find_after_loop_None)
  with assms(1) show ?thesis
    by (simp add: discoverDevices_def batch_entry valid_entry_new)
qed

lemma batch_existing:
  assumes "valid_webhook w" and "find (\<lambda>a. UUID a = gen (to_string (cfg_name w))) accs = Some a"
  shows "discoverDevices gen (Some (pre @ EObject w # post)) accs =
           (fst (discover_loop gen post
                   (set_context (gen (to_string (cfg_name w))) w
                      (fst (discover_loop gen pre accs)))),
            snd (discover_loop gen pre accs)
            @ [Log Info [Txt ''Restoring existing accessory from cache:'', Txt (displayName a)],
               NewHandler (a\<lparr>context_webhook := Some w\<rparr>)]
            @ snd (discover_loop gen post
                     (set_context (gen (to_string (cfg_name w))) w
                        (fst (discover_loop gen pre accs)))))"
proof -
  from find_after_loop_Some [OF assms(2), of gen pre w]
  obtain a' where a': "find (\<lambda>a. UUID a = gen (to_string (cfg_name w)))
                         (fst (discover_loop gen pre accs)) = Some a'"
    and name: "displayName a' = displayName a"
    and upd: "a'\<lparr>context_webhook := Some w\<rparr> = a\<lparr>context_webhook := Some w\<rparr>"
    by blast
  from assms(1) a' have "process_entry gen (EObject w) (fst (discover_loop gen pre accs)) =
      (set_context (gen (to_string (cfg_name w))) w (fst (discover_loop gen pre accs)),
       [Log Info [Txt ''Restoring existing accessory from cache:'', Txt (displayName a')],
        NewHandler (a'\<lparr>context_webhook := Some w\<rparr>)])"
    by (rule valid_entry_existing)
  then show ?thesis
    by (simp add: discoverDevices_def batch_entry name upd)
qed

text \<open>
  Claim C7. For a valid definition, \<^verbatim>\<open>discoverDevices\<close> on an empty set of known
  accessories creates one accessory, with the name and the identifier generated from it,
  attaches a handler to it and registers it once. When a known accessory has the
  identifier, nothing is registered: the handler is attached to that accessory with its
  context replaced by the definition, and but for their contexts the known accessories are
  what they were. This holds for every definition of a batch. A whole list of valid
  definitions on an empty set of known accessories gives one accessory, one handler and one
  registration for each definition, in order. And wherever the definition stands in a
  batch, between any entries \<open>pre\<close> and \<open>post\<close> and on any known accessories: when none
  of them has the identifier, its effects are the creation, the handler and the one
  registration, between the effects of \<open>pre\<close> and those of \<open>post\<close>; when one has it,
  its effects are the reuse of that accessory with the definition as context and no
  registration.
\<close>

theorem reconcile_new_or_reuse:
  assumes "valid_webhook w"
  shows "registrations_of (snd (discoverDevices gen (Some [EObject w]) [])) =
           [\<lparr> displayName = to_string (cfg_name w), UUID = gen (to_string (cfg_name w)),
              context_webhook = Some w \<rparr>]
       \<and> handlers_of (snd (discoverDevices gen (Some [EObject w]) [])) =
           [\<lparr> displayName = to_string (cfg_name w), UUID = gen (to_string (cfg_name w)),
              context_webhook = Some w \<rparr>]
       \<and> (find (\<lambda>a. UUID a = gen (to_string (cfg_name w))) accs = Some a \<longrightarrow>
            registrations_of (snd (discoverDevices gen (Some [EObject w]) accs)) = []
          \<and> handlers_of (snd (discoverDevices gen (Some [EObject w]) accs)) =
              [a\<lparr>context_webhook := Some w\<rparr>]
          \<and> find (\<lambda>a. UUID a = gen (to_string (cfg_name w)))
                (fst (discoverDevices gen (Some [EObject w]) accs)) =
              Some (a\<lparr>context_webhook := Some w\<rparr>)
          \<and> map (\<lambda>a. a\<lparr>context_webhook := None\<rparr>)
                (fst (discoverDevices gen (Some [EObject w]) accs)) =
              map (\<lambda>a. a\<lparr>context_webhook := None\<rparr>) accs)
       \<and> (list_all valid_webhook ws \<longrightarrow>
            fst (discoverDevices gen (Some (map EObject ws)) []) = []
          \<and> registrations_of (snd (discoverDevices gen (Some (map EObject ws)) [])) =
              map (\<lambda>w. \<lparr> displayName = to_string (cfg_name w),
                          UUID = gen (to_string (cfg_name w)), context_webhook = Some w \<rparr>) ws
          \<and> handlers_of (snd (discoverDevices gen (Some (map EObject ws)) [])) =
              map (\<lambda>w. \<lparr> displayName = to_string (cfg_name w),
                          UUID = gen (to_string (cfg_name w)), context_webhook = Some w \<rparr>) ws)
       \<and> (find (\<lambda>a. UUID a = gen (to_string (cfg_name w))) accs = None \<longrightarrow>
            discoverDevices gen (Some (pre @ EObject w # post)) accs =
              (fst (discover_loop gen post (fst (discover_loop gen pre accs))),
               snd (discover_loop gen pre accs)
               @ [Log Info [Txt ''Adding new accessory:'', Txt (to_string (cfg_name w))],
                  NewHandler \<lparr> displayName = to_string (cfg_name w),
                               UUID = gen (to_string (cfg_name w)),
                               context_webhook = Some w \<rparr>,
                  RegisterPlatformAccessories PLUGIN_NAME PLATFORM_NAME
                    [\<lparr> displayName = to_string (cfg_name w),
                       UUID = gen (to_string (cfg_name w)), context_webhook = Some w \<rparr>]]
               @ snd (discover_loop gen post (fst (discover_loop gen pre accs)))))
       \<and> (find (\<lambda>a. UUID a = gen (to_string (cfg_name w))) accs = Some a \<longrightarrow>
            discoverDevices gen (Some (pre @ EObject w # post)) accs =
              (fst (discover_loop gen post
                      (set_context (gen (to_string (cfg_name w))) w
                         (fst (discover_loop gen pre accs)))),
               snd (discover_loop gen pre accs)
               @ [Log Info [Txt ''Restoring existing accessory from cache:'',
                            Txt (displayName a)],
                  NewHandler (a\<lparr>context_webhook := Some w\<rparr>)]
               @ snd (discover_loop gen post
                        (set_context (gen (to_string (cfg_name w))) w
                           (fst (discover_loop gen pre accs))))))"
proof -
  have single: "registrations_of (snd (discoverDevices gen (Some [EObject w]) [])) =
           [\<lparr> displayName = to_string (cfg_name w), UUID = gen (to_string (cfg_name w)),
              context_webhook = Some w \<rparr>]
       \<and> handlers_of (snd (discoverDevices gen (Some [EObject w]) [])) =
           [\<lparr> displayName = to_string (cfg_name w), UUID = gen (to_string (cfg_name w)),
              context_webhook = Some w \<rparr>]
       \<and> (find (\<lambda>a. UUID a = gen (to_string (cfg_name w))) accs = Some a \<longrightarrow>
            registrations_of (snd (discoverDevices gen (Some [EObject w]) accs)) = []
          \<and> handlers_of (snd (discoverDevices gen (Some [EObject w]) accs)) =
              [a\<lparr>context_webhook := Some w\<rparr>]
          \<and> find (\<lambda>a. UUID a = gen (to_string (cfg_name w)))
                (fst (discoverDevices gen (Some [EObject w]) accs)) =
              Some (a\<lparr>context_webhook := Some w\<rparr>)
          \<and> map (\<lambda>a. a\<lparr>context_webhook := None\<rparr>)
                (fst (discoverDevices gen (Some [EObject w]) accs)) =
              map (\<lambda>a. a\<lparr>context_webhook := None\<rparr>) accs)"
    using valid_entry_new [OF assms, of gen "[]"]
    by (auto simp: discoverDevices_def valid_entry_existing [OF assms] set_context_keeps
        find_set_context)
  have batch: "list_all valid_webhook ws \<longrightarrow>
            fst (discoverDevices gen (Some (map EObject ws)) []) = []
          \<and> registrations_of (snd (discoverDevices gen (Some (map EObject ws)) [])) =
              map (\<lambda>w. \<lparr> displayName = to_string (cfg_name w),
                          UUID = gen (to_string (cfg_name w)), context_webhook = Some w \<rparr>) ws
          \<and> handlers_of (snd (discoverDevices gen (Some (map EObject ws)) [])) =
              map (\<lambda>w. \<lparr> displayName = to_string (cfg_name w),
                          UUID = gen (to_string (cfg_name w)), context_webhook = Some w \<rparr>) ws"
    by (simp add: discoverDevices_def all_new_against_empty)
  from single batch batch_new [OF assms, of gen accs pre post]
    batch_existing [OF assms, of gen accs a pre post]
  show ?thesis by blast
qed

text \<open>
  The example definition on no known accessory and on a cached one: one registration in
  the first case; none in the second, where the cached accessory keeps its display name
  and gets the definition as context. Two valid definitions on no known accessory: two
  registrations. The example definition after a \<^verbatim>\<open>null\<close> entry, and after another
  definition on the cached accessory.
\<close>

theorem reconcile_new_or_reuse_witness:
  "valid_webhook example_webhook
   \<and> registrations_of
         (snd (discoverDevices example_generate (Some [EObject example_webhook]) [])) =
       [\<lparr> displayName = ''Front Door Alert'', UUID = ''uuid:Front Door Alert'',
          context_webhook = Some example_webhook \<rparr>]
   \<and> find (\<lambda>a. UUID a = example_generate (to_string (cfg_name example_webhook)))
         [cached_accessory] = Some cached_accessory
   \<and> registrations_of
         (snd (discoverDevices example_generate (Some [EObject example_webhook])
                 [cached_accessory])) = []
   \<and> fst (discoverDevices example_generate (Some [EObject example_webhook])
             [cached_accessory]) =
       [\<lparr> displayName = ''Front Door'', UUID = ''uuid:Front Door Alert'',
          context_webhook = Some example_webhook \<rparr>]
   \<and> list_all valid_webhook [second_webhook, example_webhook]
   \<and> registrations_of
         (snd (discoverDevices example_generate
                 (Some (map EObject [second_webhook, example_webhook])) [])) =
       [\<lparr> displayName = ''Family Alert'', UUID = ''uuid:Family Alert'',
          context_webhook = Some second_webhook \<rparr>,
        \<lparr> displayName = ''Front Door Alert'', UUID = ''uuid:Front Door Alert'',
          context_webhook = Some example_webhook \<rparr>]
   \<and> find (\<lambda>a. UUID a = example_generate (to_string (cfg_name example_webhook))) [] = None
   \<and> snd (discoverDevices example_generate
            (Some ([ENull] @ EObject example_webhook # [])) []) =
       [Log Warn [Txt ''Skipping null or undefined webhook entry in configuration''],
        Log Info [Txt ''Adding new accessory:'', Txt ''Front Door Alert''],
        NewHandler \<lparr> displayName = ''Front Door Alert'', UUID = ''uuid:Front Door Alert'',
                     context_webhook = Some example_webhook \<rparr>,
        RegisterPlatformAccessories PLUGIN_NAME PLATFORM_NAME
          [\<lparr> displayName = ''Front Door Alert'', UUID = ''uuid:Front Door Alert'',
             context_webhook = Some example_webhook \<rparr>]]
   \<and> snd (discoverDevices example_generate
            (Some ([EObject second_webhook] @ EObject example_webhook # []))
            [cached_accessory]) =
       [Log Info [Txt ''Adding new accessory:'', Txt ''Family Alert''],
        NewHandler \<lparr> displayName = ''Family Alert'', UUID = ''uuid:Family Alert'',
                     context_webhook = Some second_webhook \<rparr>,
        RegisterPlatformAccessories PLUGIN_NAME PLATFORM_NAME
          [\<lparr> displayName = ''Family Alert'', UUID = ''uuid:Family Alert'',
             context_webhook = Some second_webhook \<rparr>],
        Log Info [Txt ''Restoring existing accessory from cache:'', Txt ''Front Door''],
        NewHandler \<lparr> displayName = ''Front Door'', UUID = ''uuid:Front Door Alert'',
                     context_webhook = Some example_webhook \<rparr>]"
proof -
  have name: "to_string (cfg_name example_webhook) = ''Front Door Alert''"
    by (simp add: example_webhook_def)
  have name2: "to_string (cfg_name second_webhook) = ''Family Alert''"
    by (simp add: second_webhook_def)
  have valid2: "valid_webhook second_webhook"
    by (simp add: valid_webhook_def second_webhook_def)
  have found:
    "find (\<lambda>a. UUID a = example_generate (to_string (cfg_name example_webhook)))
       [cached_accessory] = Some cached_accessory"
    by (simp add: name cached_accessory_def)
  have missing:
    "find (\<lambda>a. UUID a = example_generate (to_string (cfg_name second_webhook)))
       [cached_accessory] = None"
    by (simp add: name2 cached_accessory_def example_generate_def)
  have updated:
    "fst (discoverDevices example_generate (Some [EObject example_webhook])
            [cached_accessory]) =
       [\<lparr> displayName = ''Front Door'', UUID = ''uuid:Front Door Alert'',
          context_webhook = Some example_webhook \<rparr>]"
    by (simp add: discoverDevices_def
          valid_entry_existing [of example_webhook example_generate "[cached_accessory]"
            cached_accessory, OF valid_example_webhook found])
       (simp add: name cached_accessory_def example_generate_def)
  have pre1: "discover_loop example_generate [ENull] [] =
      ([], [Log Warn [Txt ''Skipping null or undefined webhook entry in configuration'']])"
    by (simp add: process_entry_def)
  have pre2: "discover_loop example_generate [EObject second_webhook] [cached_accessory] =
      ([cached_accessory],
       [Log Info [Txt ''Adding new accessory:'', Txt ''Family Alert''],
        NewHandler \<lparr> displayName = ''Family Alert'', UUID = ''uuid:Family Alert'',
                     context_webhook = Some second_webhook \<rparr>,
        RegisterPlatformAccessories PLUGIN_NAME PLATFORM_NAME
          [\<lparr> displayName = ''Family Alert'', UUID = ''uuid:Family Alert'',
             context_webhook = Some second_webhook \<rparr>]])"
    by (simp add: valid_entry_new [of second_webhook example_generate "[cached_accessory]",
          OF valid2 missing] name2)
       (simp add: example_generate_def)
  show ?thesis
    using reconcile_new_or_reuse [OF valid_example_webhook, of example_generate
        "[cached_accessory]" cached_accessory "[second_webhook, example_webhook]"
        "[EObject second_webhook]" "[]"]
      reconcile_new_or_reuse [OF valid_example_webhook, of example_generate
        "[]" cached_accessory "[second_webhook, example_webhook]" "[ENull]" "[]"]
      found updated valid_example_webhook valid2 pre1 pre2
    by (simp add: name name2 example_generate_def cached_accessory_def
        del: discover_loop.simps(2))
qed

text \<open>
  Claim C9 at the failing input: two definitions with the same name and no known
  accessory. \<^verbatim>\<open>discoverDevices\<close> registers two accessories with the same identifier,
  since a created accessory is not added to \<^verbatim>\<open>this.accessories\<close>.
\<close>

theorem duplicate_name_registered_twice:
  "registrations_of (snd (discoverDevices example_generate
     (Some [EObject example_webhook, EObject (example_webhook\<lparr>cfg_text := JStr ''Again''\<rparr>)])
     [])) =
     [\<lparr> displayName = ''Front Door Alert'', UUID = ''uuid:Front Door Alert'',
        context_webhook = Some example_webhook \<rparr>,
      \<lparr> displayName = ''Front Door Alert'', UUID = ''uuid:Front Door Alert'',
        context_webhook = Some (example_webhook\<lparr>cfg_text := JStr ''Again''\<rparr>) \<rparr>]"
  by (simp add: discoverDevices_def process_entry_def example_webhook_def example_generate_def)

text \<open>
  Claim C10. A definition whose \<^verbatim>\<open>name\<close>, \<^verbatim>\<open>token\<close>, \<^verbatim>\<open>text\<close> or \<^verbatim>\<open>id\<close> is the
  empty string is processed exactly as the definition without that field, and is skipped:
  the known accessories stay as they are and no handler is created. A \<^verbatim>\<open>null\<close> or
  \<^verbatim>\<open>undefined\<close> entry gives one warning and changes nothing, and in a batch the
  entries before and after it are processed as they are without it.
\<close>

theorem falsy_fields_and_entries_skipped:
  "process_entry gen (EObject (w\<lparr>cfg_name := JStr []\<rparr>)) accs =
     process_entry gen (EObject (w\<lparr>cfg_name := JUndefined\<rparr>)) accs
   \<and> process_entry gen (EObject (w\<lparr>cfg_token := JStr []\<rparr>)) accs =
     process_entry gen (EObject (w\<lparr>cfg_token := JUndefined\<rparr>)) accs
   \<and> process_entry gen (EObject (w\<lparr>cfg_text := JStr []\<rparr>)) accs =
     process_entry gen (EObject (w\<lparr>cfg_text := JUndefined\<rparr>)) accs
   \<and> process_entry gen (EObject (w\<lparr>cfg_id := JStr []\<rparr>)) accs =
     process_entry gen (EObject (w\<lparr>cfg_id := JUndefined\<rparr>)) accs
   \<and> fst (process_entry gen (EObject (w\<lparr>cfg_name := JStr []\<rparr>)) accs) = accs
   \<and> fst (process_entry gen (EObject (w\<lparr>cfg_token := JStr []\<rparr>)) accs) = accs
   \<and> fst (process_entry gen (EObject (w\<lparr>cfg_text := JStr []\<rparr>)) accs) = accs
   \<and> fst (process_entry gen (EObject (w\<lparr>cfg_id := JStr []\<rparr>)) accs) = accs
   \<and> handlers_of (snd (process_entry gen (EObject (w\<lparr>cfg_name := JStr []\<rparr>)) accs)) = []
   \<and> handlers_of (snd (process_entry gen (EObject (w\<lparr>cfg_token := JStr []\<rparr>)) accs)) = []
   \<and> handlers_of (snd (process_entry gen (EObject (w\<lparr>cfg_text := JStr []\<rparr>)) accs)) = []
   \<and> handlers_of (snd (process_entry gen (EObject (w\<lparr>cfg_id := JStr []\<rparr>)) accs)) = []
   \<and> process_entry gen ENull accs =
       (accs, [Log Warn [Txt ''Skipping null or undefined webhook entry in configuration'']])
   \<and> process_entry gen EUndefined accs =
       (accs, [Log Warn [Txt ''Skipping null or undefined webhook entry in configuration'']])
   \<and> discoverDevices gen (Some (pre @ ENull # post)) accs =
       (fst (discoverDevices gen (Some (pre @ post)) accs),
        snd (discover_loop gen pre accs)
        @ [Log Warn [Txt ''Skipping null or undefined webhook entry in configuration'']]
        @ snd (discover_loop gen post (fst (discover_loop gen pre accs))))
   \<and> discoverDevices gen (Some (pre @ EUndefined # post)) accs =
       (fst (discoverDevices gen (Some (pre @ post)) accs),
        snd (discover_loop gen pre accs)
        @ [Log Warn [Txt ''Skipping null or undefined webhook entry in configuration'']]
        @ snd (discover_loop gen post (fst (discover_loop gen pre accs))))"
proof -
  have null: "process_entry gen ENull a =
       (a, [Log Warn [Txt ''Skipping null or undefined webhook entry in configuration'']])"
    and undef: "process_entry gen EUndefined a =
       (a, [Log Warn [Txt ''Skipping null or undefined webhook entry in configuration'']])" for a
    by (simp_all add: process_entry_def)
  have fields: "process_entry gen (EObject (w\<lparr>cfg_name := JStr []\<rparr>)) accs =
     process_entry gen (EObject (w\<lparr>cfg_name := JUndefined\<rparr>)) accs"
    "process_entry gen (EObject (w\<lparr>cfg_token := JStr []\<rparr>)) accs =
     process_entry gen (EObject (w\<lparr>cfg_token := JUndefined\<rparr>)) accs"
    "process_entry gen (EObject (w\<lparr>cfg_text := JStr []\<rparr>)) accs =
     process_entry gen (EObject (w\<lparr>cfg_text := JUndefined\<rparr>)) accs"
    "process_entry gen (EObject (w\<lparr>cfg_id := JStr []\<rparr>)) accs =
     process_entry gen (EObject (w\<lparr>cfg_id := JUndefined\<rparr>)) accs"
    by (simp_all add: process_entry_def missing_message_def)
  have invalid: "\<not> valid_webhook (w\<lparr>cfg_name := JStr []\<rparr>)"
    "\<not> valid_webhook (w\<lparr>cfg_token := JStr []\<rparr>)"
    "\<not> valid_webhook (w\<lparr>cfg_text := JStr []\<rparr>)"
    "\<not> valid_webhook (w\<lparr>cfg_id := JStr []\<rparr>)"
    by (simp_all add: valid_webhook_def)
  note skips = invalid_entry_skipped(1,3) [OF invalid(1), of gen accs]
    invalid_entry_skipped(1,3) [OF invalid(2), of gen accs]
    invalid_entry_skipped(1,3) [OF invalid(3), of gen accs]
    invalid_entry_skipped(1,3) [OF invalid(4), of gen accs]
  have batch_null: "discoverDevices gen (Some (pre @ ENull # post)) accs =
       (fst (discoverDevices gen (Some (pre @ post)) accs),
        snd (discover_loop gen pre accs)
        @ [Log Warn [Txt ''Skipping null or undefined webhook entry in configuration'']]
        @ snd (discover_loop gen post (fst (discover_loop gen pre accs))))"
    using skipped_entry_isolated [of gen ENull pre accs post]
    by (simp add: null discoverDevices_def discover_loop_append [of gen pre post]
        del: discover_loop.simps)
  have batch_undef: "discoverDevices gen (Some (pre @ EUndefined # post)) accs =
       (fst (discoverDevices gen (Some (pre @ post)) accs),
        snd (discover_loop gen pre accs)
        @ [Log Warn [Txt ''Skipping null or undefined webhook entry in configuration'']]
        @ snd (discover_loop gen post (fst (discover_loop gen pre accs))))"
    using skipped_entry_isolated [of gen EUndefined pre accs post]
    by (simp add: undef discoverDevices_def discover_loop_append [of gen pre post]
        del: discover_loop.simps)
  from fields skips null [of accs] undef [of accs] batch_null batch_undef
  show ?thesis by blast
qed

end
